theory Spec2Isabelle
  imports Main
begin

section \<open>Values\<close>

text \<open>
  The values that \<^verbatim>\<open>json.loads\<close> produces and \<^verbatim>\<open>json.dumps\<close> consumes. A Python
  \<^verbatim>\<open>dict\<close> keeps insertion order and has unique keys, so an object is an association
  list that is only ever extended through \<open>dict_set\<close>. Floating-point numbers are left
  out: no function of the repository computes with them.
\<close>

datatype json =
    JNull
  | JBool bool
  | JInt int
  | JStr string
  | JArr "json list"
  | JObj "(string \<times> json) list"

text \<open>Python's truth value of a JSON value, as tested by \<^verbatim>\<open>if x:\<close>.\<close>

fun truthy :: "json \<Rightarrow> bool" where
  "truthy JNull = False"
| "truthy (JBool b) = b"
| "truthy (JInt i) = (i \<noteq> 0)"
| "truthy (JStr s) = (s \<noteq> [])"
| "truthy (JArr xs) = (xs \<noteq> [])"
| "truthy (JObj kvs) = (kvs \<noteq> [])"

text \<open>\<^verbatim>\<open>d[k] = v\<close>: an existing key keeps its position, a new key goes last.\<close>

fun dict_set :: "(string \<times> 'v) list \<Rightarrow> string \<Rightarrow> 'v \<Rightarrow> (string \<times> 'v) list" where
  "dict_set [] k v = [(k, v)]"
| "dict_set (p # ps) k v = (if fst p = k then (k, v) # ps else p # dict_set ps k v)"

text \<open>\<^verbatim>\<open>d.get(k)\<close>: \<^verbatim>\<open>None\<close> (here \<open>JNull\<close>) when the key is absent.\<close>

definition dict_get :: "(string \<times> json) list \<Rightarrow> string \<Rightarrow> json" where
  "dict_get d k = (case map_of d k of None \<Rightarrow> JNull | Some v \<Rightarrow> v)"

text \<open>\<^verbatim>\<open>d.get(k, default)\<close>.\<close>

definition dict_get_default :: "(string \<times> json) list \<Rightarrow> string \<Rightarrow> json \<Rightarrow> json" where
  "dict_get_default d k dflt = (case map_of d k of None \<Rightarrow> dflt | Some v \<Rightarrow> v)"

subsection \<open>String methods (ASCII)\<close>

text \<open>
  A \<open>string\<close> holds ASCII characters here, and on ASCII strings the definitions
  below are \<^verbatim>\<open>str.lower\<close>, \<^verbatim>\<open>str.capitalize\<close> and \<^verbatim>\<open>str.strip\<close>. Names with characters
  beyond ASCII, which Python would also case-map, are outside the model.
\<close>

definition lower_char :: "char \<Rightarrow> char" where
  "lower_char c =
     (let n = (of_char c :: nat) in if 65 \<le> n \<and> n \<le> 90 then char_of (n + 32) else c)"

definition upper_char :: "char \<Rightarrow> char" where
  "upper_char c =
     (let n = (of_char c :: nat) in if 97 \<le> n \<and> n \<le> 122 then char_of (n - 32) else c)"

definition lower :: "string \<Rightarrow> string" where
  "lower s = map lower_char s"

fun capitalize :: "string \<Rightarrow> string" where
  "capitalize [] = []"
| "capitalize (c # cs) = upper_char c # map lower_char cs"

definition is_space :: "char \<Rightarrow> bool" where
  "is_space c =
     (let n = (of_char c :: nat) in (9 \<le> n \<and> n \<le> 13) \<or> (28 \<le> n \<and> n \<le> 32))"

definition strip :: "string \<Rightarrow> string" where
  "strip s = rev (dropWhile is_space (rev (dropWhile is_space s)))"

section \<open>Type annotations\<close>

text \<open>
  What \<^verbatim>\<open>get_schema_for_type\<close> can tell apart in an annotation. \<open>PGeneric origin args\<close>
  is a parameterised alias with \<^verbatim>\<open>get_origin\<close> and \<^verbatim>\<open>get_args\<close> as given: \<^verbatim>\<open>List[int]\<close> is
  \<open>PGeneric OList [PInt]\<close>, and the bare \<^verbatim>\<open>typing.List\<close> is \<open>PGeneric OList []\<close>. The
  builtin classes \<^verbatim>\<open>list\<close> and \<^verbatim>\<open>dict\<close> written without parameters have no origin; they
  are \<open>PList\<close> and \<open>PDict\<close>. \<open>PNone\<close> is the value \<^verbatim>\<open>None\<close> used as an annotation,
  \<open>POther\<close> any other class (\<^verbatim>\<open>bytes\<close>, \<^verbatim>\<open>NoneType\<close>, ...).
\<close>

datatype origin = OUnion | OList | ODict | OOther string

datatype pytype =
    PStr
  | PInt
  | PFloat
  | PBool
  | PDict
  | PList
  | PNone
  | POther string
  | PEnum "json list"
  | PTypedDict "(string \<times> pytype) list"
  | PGeneric origin "pytype list"

datatype error =
    ValueError pytype
  | TypeError
  | KeyError json
  | AttributeError
  | JSONDecodeError
  | Exception string

section \<open>schemas.py\<close>

fun get_python_type :: "pytype \<Rightarrow> error + string" where
  "get_python_type PStr = Inr ''string''"
| "get_python_type PInt = Inr ''integer''"
| "get_python_type PFloat = Inr ''number''"
| "get_python_type PBool = Inr ''boolean''"
| "get_python_type PDict = Inr ''object''"
| "get_python_type PList = Inr ''array''"
| "get_python_type annotation = Inl (ValueError annotation)"

definition type_schema :: "string \<Rightarrow> json" where
  "type_schema t = JObj [(''type'', JStr t)]"

definition array_schema :: "json \<Rightarrow> json" where
  "array_schema items = JObj [(''type'', JStr ''array''), (''items'', items)]"

definition pair_schema :: "json \<Rightarrow> json \<Rightarrow> json" where
  "pair_schema key_schema value_schema =
     JObj [(''type'', JStr ''object''),
           (''properties'', JObj [(''property1'', key_schema), (''property2'', value_schema)]),
           (''required'', JArr [JStr ''property1'', JStr ''property2'']),
           (''additionalProperties'', JBool False)]"

text \<open>
  The mapper, with the source's order of tests: enumeration, typed dictionary, no
  origin, union, list, dictionary, anything else. A comprehension or a loop over
  sub-annotations stops at the first one that raises.
\<close>

fun get_schema_for_type :: "pytype \<Rightarrow> error + json"
  and schemas_for_args :: "pytype list \<Rightarrow> error + json list"
  and schemas_for_fields :: "(string \<times> json) list \<Rightarrow> (string \<times> pytype) list
                               \<Rightarrow> error + (string \<times> json) list"
where
  "get_schema_for_type (PEnum members) =
     Inr (JObj [(''type'', JStr ''string''), (''enum'', JArr members)])"
| "get_schema_for_type (PTypedDict annotations) =
     (case schemas_for_fields [] annotations of
        Inl e \<Rightarrow> Inl e
      | Inr properties \<Rightarrow>
          Inr (JObj [(''type'', JStr ''object''),
                     (''properties'', JObj properties),
                     (''required'', JArr (map (JStr \<circ> fst) annotations)),
                     (''additionalProperties'', JBool False)]))"
| "get_schema_for_type (PGeneric OUnion args) =
     (case schemas_for_args args of
        Inl e \<Rightarrow> Inl e
      | Inr branches \<Rightarrow> Inr (JObj [(''anyOf'', JArr branches)]))"
| "get_schema_for_type (PGeneric OList []) = Inr (array_schema (type_schema ''string''))"
| "get_schema_for_type (PGeneric OList (elem # rest)) =
     (case get_schema_for_type elem of
        Inl e \<Rightarrow> Inl e
      | Inr items \<Rightarrow> Inr (array_schema items))"
| "get_schema_for_type (PGeneric ODict [key_type, value_type]) =
     (case (if key_type \<noteq> PNone then get_schema_for_type key_type
            else Inr (type_schema ''string'')) of
        Inl e \<Rightarrow> Inl e
      | Inr key_schema \<Rightarrow>
          (case (if value_type \<noteq> PNone then get_schema_for_type value_type
                 else Inr (type_schema ''string'')) of
             Inl e \<Rightarrow> Inl e
           | Inr value_schema \<Rightarrow> Inr (pair_schema key_schema value_schema)))"
| "get_schema_for_type (PGeneric ODict args) =
     Inr (pair_schema (type_schema ''string'') (type_schema ''string''))"
| "get_schema_for_type (PGeneric (OOther origin) args) =
     (case get_python_type (PGeneric (OOther origin) args) of
        Inl e \<Rightarrow> Inl e
      | Inr t \<Rightarrow> Inr (type_schema t))"
| "get_schema_for_type annotation =
     (case get_python_type annotation of
        Inl e \<Rightarrow> Inl e
      | Inr t \<Rightarrow> Inr (type_schema t))"
| "schemas_for_args [] = Inr []"
| "schemas_for_args (arg # args) =
     (case get_schema_for_type arg of
        Inl e \<Rightarrow> Inl e
      | Inr s \<Rightarrow> (case schemas_for_args args of Inl e \<Rightarrow> Inl e | Inr ss \<Rightarrow> Inr (s # ss)))"
| "schemas_for_fields properties [] = Inr properties"
| "schemas_for_fields properties ((key, val) # fields) =
     (case get_schema_for_type val of
        Inl e \<Rightarrow> Inl e
      | Inr s \<Rightarrow> schemas_for_fields (dict_set properties key s) fields)"


subsection \<open>Function Schema Extractor\<close>

text \<open>
  What the repository reads of a registered callable: the parameters that
  \<^verbatim>\<open>inspect.signature\<close> lists, in order, each with its annotation (\<open>None\<close> when it has
  none), its \<^verbatim>\<open>__doc__\<close>, and what calling it with keyword arguments does. A callable
  runs in a world \<open>'w\<close> that holds everything outside the calling agent's own
  transcript (the completion endpoint, peer agents, anything else it touches); it
  returns a value or raises. The returned value is either serialisable by
  \<^verbatim>\<open>json.dumps\<close> or not.
\<close>

datatype pyobj = JsonValue json | Unserializable

record 'w pyfunc =
  sig_parameters :: "(string \<times> pytype option) list"
  fn_doc :: "string option"
  fn_call :: "(string \<times> json) list \<Rightarrow> 'w \<Rightarrow> (error + pyobj) \<times> 'w"

definition parameters_object :: "(string \<times> json) list \<Rightarrow> json" where
  "parameters_object parameters_schema =
     JObj [(''type'', JStr ''object''),
           (''properties'', JObj parameters_schema),
           (''required'', JArr (map (JStr \<circ> fst) parameters_schema)),
           (''additionalProperties'', JBool False)]"

definition tool_definition :: "string \<Rightarrow> string \<Rightarrow> json \<Rightarrow> json" where
  "tool_definition name description parameters =
     JObj [(''function'',
              JObj [(''name'', JStr name),
                    (''description'', JStr description),
                    (''parameters'', parameters),
                    (''strict'', JBool True)]),
           (''type'', JStr ''function'')]"

text \<open>The inner loop over \<^verbatim>\<open>signature.parameters.items()\<close>.\<close>

fun parameters_loop :: "(string \<times> json) list \<Rightarrow> (string \<times> pytype option) list
                          \<Rightarrow> error + (string \<times> json) list" where
  "parameters_loop parameters_schema [] = Inr parameters_schema"
| "parameters_loop parameters_schema ((param_name, annotation) # rest) =
     (case get_schema_for_type (case annotation of None \<Rightarrow> PStr | Some a \<Rightarrow> a) of
        Inl e \<Rightarrow> Inl e
      | Inr (JObj param_schema) \<Rightarrow>
          parameters_loop
            (dict_set parameters_schema param_name
               (JObj (dict_set
                        (dict_set param_schema ''title'' (JStr (capitalize param_name)))
                        ''description'' (JStr (''Parameter for '' @ param_name)))))
            rest
      | Inr _ \<Rightarrow> Inl TypeError)"

definition description_of :: "string option \<Rightarrow> string" where
  "description_of d =
     (case d of
        None \<Rightarrow> ''No description available.''
      | Some s \<Rightarrow> if s \<noteq> [] then strip s else ''No description available.'')"

text \<open>The outer loop over \<^verbatim>\<open>functions.items()\<close>, building the list \<^verbatim>\<open>schema\<close>.\<close>

fun functions_loop :: "json list \<Rightarrow> (string \<times> 'w pyfunc) list \<Rightarrow> error + json list" where
  "functions_loop schema [] = Inr schema"
| "functions_loop schema ((name, func) # rest) =
     (case parameters_loop [] (sig_parameters func) of
        Inl e \<Rightarrow> Inl e
      | Inr parameters_schema \<Rightarrow>
          functions_loop
            (schema @ [tool_definition name (description_of (fn_doc func))
                         (parameters_object parameters_schema)])
            rest)"

text \<open>
  \<^verbatim>\<open>json.dumps(schema, indent=4)\<close> is a library function; it is the parameter
  \<open>dumps_indent\<close>.
\<close>

definition extract_function_schema ::
  "(json \<Rightarrow> string) \<Rightarrow> (string \<times> 'w pyfunc) list \<Rightarrow> error + string" where
  "extract_function_schema dumps_indent functions =
     (case functions_loop [] functions of
        Inl e \<Rightarrow> Inl e
      | Inr schema \<Rightarrow> Inr (dumps_indent (JArr schema)))"

subsection \<open>Response Schema Builder\<close>

text \<open>\<^verbatim>\<open>for x in v\<close>: a list gives its elements, a dict its keys, a string its characters.\<close>

fun py_iter :: "json \<Rightarrow> error + json list" where
  "py_iter (JArr xs) = Inr xs"
| "py_iter (JObj kvs) = Inr (map (JStr \<circ> fst) kvs)"
| "py_iter (JStr s) = Inr (map (\<lambda>c. JStr [c]) s)"
| "py_iter v = Inl TypeError"

text \<open>\<^verbatim>\<open>v[k]\<close> with a string key: only a dict can be subscripted by one.\<close>

fun subscript :: "json \<Rightarrow> string \<Rightarrow> error + json" where
  "subscript (JObj kvs) k =
     (case map_of kvs k of None \<Rightarrow> Inl (KeyError (JStr k)) | Some v \<Rightarrow> Inr v)"
| "subscript v k = Inl TypeError"

definition action_branch :: "json \<Rightarrow> json \<Rightarrow> json \<Rightarrow> json" where
  "action_branch name description parameters =
     JObj [(''type'', JStr ''object''),
           (''properties'',
              JObj [(''name'', JObj [(''enum'', JArr [name]), (''description'', description)]),
                    (''arguments'', parameters)]),
           (''required'', JArr [JStr ''name'', JStr ''arguments'']),
           (''additionalProperties'', JBool False)]"

definition null_branch :: json where
  "null_branch = JObj [(''type'', JStr ''null'')]"

fun branches_loop :: "json list \<Rightarrow> json list \<Rightarrow> error + json list" where
  "branches_loop branches [] = Inr branches"
| "branches_loop branches (tool # rest) =
     (case subscript tool ''function'' of
        Inl e \<Rightarrow> Inl e
      | Inr func_info \<Rightarrow>
          (case subscript func_info ''name'' of
             Inl e \<Rightarrow> Inl e
           | Inr name \<Rightarrow>
               (case subscript func_info ''description'' of
                  Inl e \<Rightarrow> Inl e
                | Inr description \<Rightarrow>
                    (case subscript func_info ''parameters'' of
                       Inl e \<Rightarrow> Inl e
                     | Inr parameters \<Rightarrow>
                         branches_loop
                           (branches @ [action_branch name description parameters])
                           rest))))"

text \<open>\<^verbatim>\<open>json.loads\<close> is the parameter \<open>loads\<close>; \<open>None\<close> is its \<^verbatim>\<open>JSONDecodeError\<close>.\<close>

definition build_action_input_schema ::
  "(string \<Rightarrow> json option) \<Rightarrow> string \<Rightarrow> error + json list" where
  "build_action_input_schema loads tool_definitions_schema =
     (case loads tool_definitions_schema of
        None \<Rightarrow> Inl JSONDecodeError
      | Some tool_definitions \<Rightarrow>
          (case py_iter tool_definitions of
             Inl e \<Rightarrow> Inl e
           | Inr tools \<Rightarrow>
               (case branches_loop [] tools of
                  Inl e \<Rightarrow> Inl e
                | Inr branches \<Rightarrow> Inr (branches @ [null_branch]))))"

definition response_schema_of :: "json list \<Rightarrow> json" where
  "response_schema_of action_input_branches =
     JObj [(''type'', JStr ''object''),
           (''description'', JStr ''Schema for AI responses ensuring strict JSON formatting.''),
           (''properties'',
              JObj [(''Thought'',
                       JObj [(''type'', JStr ''string''),
                             (''description'', JStr (''AI'' @ [CHR 0x27] @ ''s reasoning before taking action.''))]),
                    (''Action'',
                       JObj [(''type'', JStr ''string''),
                             (''enum'', JArr [JStr ''CALL_FUNCTION'', JStr ''NONE'']),
                             (''description'', JStr ''Chosen action.'')]),
                    (''Action Input'', JObj [(''anyOf'', JArr action_input_branches)]),
                    (''Observation'',
                       JObj [(''anyOf'',
                                JArr [JObj [(''type'', JStr ''string'')],
                                      JObj [(''type'', JStr ''null'')],
                                      JObj [(''type'', JStr ''object''),
                                            (''additionalProperties'', JBool False)]]),
                             (''description'', JStr ''Result of the executed action.'')]),
                    (''Final Answer'',
                       JObj [(''anyOf'',
                                JArr [JObj [(''type'', JStr ''string'')],
                                      JObj [(''type'', JStr ''null'')]]),
                             (''description'',
                                JStr ''Final answer to the query. Should be null if an action is executed.'')])]),
           (''additionalProperties'', JBool False),
           (''required'',
              JArr [JStr ''Thought'', JStr ''Action'', JStr ''Action Input'',
                    JStr ''Observation'', JStr ''Final Answer''])]"

definition generate_response_schema :: "(string \<Rightarrow> json option) \<Rightarrow> string \<Rightarrow> error + json" where
  "generate_response_schema loads tool_definitions_schema =
     (case build_action_input_schema loads tool_definitions_schema of
        Inl e \<Rightarrow> Inl e
      | Inr branches \<Rightarrow> Inr (response_schema_of branches))"


section \<open>agent.py\<close>

text \<open>
  A transcript entry is a dict with the keys \<^verbatim>\<open>role\<close> and \<^verbatim>\<open>content\<close>, and \<^verbatim>\<open>name\<close> in
  function-result entries only (\<open>msg_name\<close> is \<open>None\<close> when the key is missing).
\<close>

datatype role = System | User | Assistant | Function

datatype message = Message (msg_role: role) (msg_name: "json option") (msg_content: json)

text \<open>
  What the loop takes from outside the repository: the completion request (constrained
  by the agent's response schema, reading the transcript, returning the text of the
  first choice or raising), \<^verbatim>\<open>json.loads\<close>, \<^verbatim>\<open>json.dumps\<close>, and \<^verbatim>\<open>str\<close> as an f-string
  applies it to a value that is not a string.
\<close>

record 'w env =
  completion :: "json \<Rightarrow> message list \<Rightarrow> 'w \<Rightarrow> (error + string) \<times> 'w"
  loads :: "string \<Rightarrow> json option"
  dumps :: "json \<Rightarrow> string"
  py_str :: "json \<Rightarrow> string"

record 'w agent =
  agent_name :: string
  agent_functions :: "(string \<times> 'w pyfunc) list"
  response_schema :: json

subsection \<open>Recipient registration\<close>

text \<open>
  A peer is another agent; of it the registration reads \<^verbatim>\<open>name\<close> and the generated
  function calls \<^verbatim>\<open>call(message)\<close>, which runs in the world and returns the peer's
  answer or raises.
\<close>

record 'w peer =
  peer_name :: string
  peer_call :: "json \<Rightarrow> 'w \<Rightarrow> (error + json) \<times> 'w"

text \<open>
  The dict comprehension \<^verbatim>\<open>enum_members\<close>, from lower-cased name to lower-cased name.
\<close>

fun enum_members :: "(string \<times> string) list \<Rightarrow> ('w peer \<times> string) list
                       \<Rightarrow> (string \<times> string) list" where
  "enum_members d [] = d"
| "enum_members d ((recipient, description) # rest) =
     enum_members (dict_set d (lower (peer_name recipient)) (lower (peer_name recipient))) rest"

text \<open>
  \<^verbatim>\<open>Enum("RecipientsEnum", enum_members)\<close> is a library call; it is the parameter
  \<open>make_enum\<close>, which gives the values of the members of the new class in definition
  order, or the exception that \<^verbatim>\<open>Enum\<close> raises (a \<^verbatim>\<open>ValueError\<close> on a member name it does not
  accept, such as the empty one).
\<close>

definition RecipientsEnum ::
  "((string \<times> string) list \<Rightarrow> error + json list) \<Rightarrow> ('w peer \<times> string) list \<Rightarrow> error + pytype" where
  "RecipientsEnum make_enum recipients =
     (case make_enum (enum_members [] recipients) of
        Inl e \<Rightarrow> Inl e
      | Inr member_values \<Rightarrow> Inr (PEnum member_values))"

text \<open>
  \<^verbatim>\<open>recipient_mapping\<close> is one dict, filled by the loop and captured by every generated
  function, which reads it only when called, after the loop has ended: each of them
  sees the final mapping.
\<close>

fun recipient_mapping :: "(string \<times> 'w peer) list \<Rightarrow> ('w peer \<times> string) list
                            \<Rightarrow> (string \<times> 'w peer) list" where
  "recipient_mapping m [] = m"
| "recipient_mapping m ((recipient, description) # rest) =
     recipient_mapping (dict_set m (lower (peer_name recipient)) recipient) rest"

text \<open>
  Calling \<^verbatim>\<open>generated_function(**kwargs)\<close>: binding fails on an unknown keyword and on a
  missing \<^verbatim>\<open>message\<close> or \<^verbatim>\<open>recipient_name\<close> (\<^verbatim>\<open>function_doc\<close> has a default). The first
  statement formats a string and drops it. The lookup in the mapping raises on a key
  that is not hashable or not present.
\<close>

definition generated_function ::
  "(string \<times> 'w peer) list \<Rightarrow> (string \<times> json) list \<Rightarrow> 'w \<Rightarrow> (error + pyobj) \<times> 'w" where
  "generated_function mapping kwargs w =
     (if \<not> set (map fst kwargs) \<subseteq> {''message'', ''recipient_name'', ''function_doc''}
         \<or> ''message'' \<notin> set (map fst kwargs)
         \<or> ''recipient_name'' \<notin> set (map fst kwargs)
      then (Inl TypeError, w)
      else
        (case dict_get kwargs ''recipient_name'' of
           JStr recipient_name \<Rightarrow>
             (case map_of mapping recipient_name of
                None \<Rightarrow> (Inl (KeyError (JStr recipient_name)), w)
              | Some recipient \<Rightarrow>
                  (case peer_call recipient (dict_get kwargs ''message'') w of
                     (Inl e, w') \<Rightarrow> (Inl e, w')
                   | (Inr result, w') \<Rightarrow> (Inr (JsonValue result), w')))
         | JArr xs \<Rightarrow> (Inl TypeError, w)
         | JObj kvs \<Rightarrow> (Inl TypeError, w)
         | other \<Rightarrow> (Inl (KeyError other), w)))"

text \<open>
  The function object that the \<^verbatim>\<open>def\<close> statement creates: three parameters, the third
  without annotation, and no \<^verbatim>\<open>__doc__\<close> (the first statement of the body is a call of
  \<^verbatim>\<open>format\<close>, not a string literal).
\<close>

definition generated_pyfunc :: "pytype \<Rightarrow> (string \<times> 'w peer) list \<Rightarrow> 'w pyfunc" where
  "generated_pyfunc recipients_enum mapping =
     \<lparr> sig_parameters = [(''message'', Some PStr),
                         (''recipient_name'', Some recipients_enum),
                         (''function_doc'', None)],
       fn_doc = None,
       fn_call = generated_function mapping \<rparr>"

text \<open>
  The loop over the recipients. Every function it stores is annotated with the one
  enumeration and closes over the one mapping, given here as it is after the loop.
\<close>

fun register_loop :: "pytype \<Rightarrow> (string \<times> 'w peer) list \<Rightarrow> (string \<times> 'w pyfunc) list
                        \<Rightarrow> ('w peer \<times> string) list \<Rightarrow> (string \<times> 'w pyfunc) list" where
  "register_loop recipients_enum mapping fs [] = fs"
| "register_loop recipients_enum mapping fs ((recipient, description) # rest) =
     register_loop recipients_enum mapping
       (dict_set fs (''talk_to_'' @ lower (peer_name recipient))
          (generated_pyfunc recipients_enum mapping))
       rest"

text \<open>
  \<^verbatim>\<open>_register_recipients\<close>: the enumeration is built first, and if that raises, no
  function has been registered.
\<close>

definition register_recipients ::
  "((string \<times> string) list \<Rightarrow> error + json list) \<Rightarrow> (string \<times> 'w pyfunc) list
     \<Rightarrow> ('w peer \<times> string) list \<Rightarrow> error + (string \<times> 'w pyfunc) list" where
  "register_recipients make_enum fs recipients =
     (case RecipientsEnum make_enum recipients of
        Inl e \<Rightarrow> Inl e
      | Inr recipients_enum \<Rightarrow>
          Inr (register_loop recipients_enum (recipient_mapping [] recipients) fs recipients))"

subsection \<open>The loop\<close>

definition format_value :: "'w env \<Rightarrow> json \<Rightarrow> string" where
  "format_value env v = (case v of JStr s \<Rightarrow> s | _ \<Rightarrow> py_str env v)"

text \<open>
  \<^verbatim>\<open>call_function(function_name, **kwargs)\<close>: \<^verbatim>\<open>dict.get\<close> raises on a key that is not
  hashable and finds nothing under a key that is not a string.
\<close>

definition call_function ::
  "'w env \<Rightarrow> 'w agent \<Rightarrow> json \<Rightarrow> (string \<times> json) list \<Rightarrow> 'w \<Rightarrow> (error + pyobj) \<times> 'w" where
  "call_function env self function_name kwargs w =
     (case function_name of
        JArr xs \<Rightarrow> (Inl TypeError, w)
      | JObj kvs \<Rightarrow> (Inl TypeError, w)
      | _ \<Rightarrow>
        (case (case function_name of JStr n \<Rightarrow> map_of (agent_functions self) n | _ \<Rightarrow> None) of
           None \<Rightarrow>
             (Inr (JsonValue
                     (JObj [(''error'',
                             JStr (''Unknown function '' @ [CHR 0x27]
                                   @ format_value env function_name @ [CHR 0x27]))])),
              w)
         | Some function \<Rightarrow> fn_call function kwargs w))"

text \<open>\<^verbatim>\<open>pretty_print_response\<close> prints; it raises when the response has no \<^verbatim>\<open>get\<close>.\<close>

fun pretty_print_response :: "json \<Rightarrow> error option" where
  "pretty_print_response (JObj kvs) = None"
| "pretty_print_response v = Some AttributeError"

datatype flow = Raise error | Return json | Continue

definition corrective_message :: message where
  "corrective_message =
     Message System None
       (JStr (''Action Input and Final Answer can'' @ [CHR 0x27] @ ''t be null simultaneously''))"

text \<open>
  Lines 139 to 155: the three branches on the parsed response, which is a dict here.
  The keyword arguments are bound to \<^verbatim>\<open>call_function(self, function_name, **kwargs)\<close>,
  so \<^verbatim>\<open>arguments\<close> must be a dict without the keys \<^verbatim>\<open>self\<close> and \<^verbatim>\<open>function_name\<close>.
\<close>

definition dispatch ::
  "'w env \<Rightarrow> 'w agent \<Rightarrow> (string \<times> json) list \<Rightarrow> message list \<Rightarrow> 'w
     \<Rightarrow> flow \<times> message list \<times> 'w" where
  "dispatch env self structured_output conversation w =
     (if truthy (dict_get structured_output ''Final Answer'')
      then (Return (dict_get structured_output ''Final Answer''), conversation, w)
      else if truthy (dict_get structured_output ''Action Input'')
      then
        (case dict_get structured_output ''Action Input'' of
           JObj action_input \<Rightarrow>
             (case dict_get_default action_input ''arguments'' (JObj []) of
                JObj arguments \<Rightarrow>
                  if ''function_name'' \<in> set (map fst arguments)
                     \<or> ''self'' \<in> set (map fst arguments)
                  then (Raise TypeError, conversation, w)
                  else
                    (case call_function env self (dict_get action_input ''name'') arguments w of
                       (Inl e, w') \<Rightarrow> (Raise e, conversation, w')
                     | (Inr Unserializable, w') \<Rightarrow> (Raise TypeError, conversation, w')
                     | (Inr (JsonValue function_result), w') \<Rightarrow>
                         (Continue,
                          conversation
                            @ [Message Function (Some (dict_get action_input ''name''))
                                 (JStr (dumps env function_result))],
                          w'))
              | _ \<Rightarrow> (Raise TypeError, conversation, w))
         | _ \<Rightarrow> (Raise AttributeError, conversation, w))
      else (Continue, conversation @ [corrective_message], w))"

text \<open>
  Lines 130 to 155: the response text is appended as the assistant message, decoded,
  printed and acted on.
\<close>

definition process_response ::
  "'w env \<Rightarrow> 'w agent \<Rightarrow> string \<Rightarrow> message list \<Rightarrow> 'w \<Rightarrow> flow \<times> message list \<times> 'w" where
  "process_response env self response_message conversation w =
     (case loads env response_message of
        None \<Rightarrow>
          (Raise JSONDecodeError,
           conversation @ [Message Assistant None (JStr response_message)], w)
      | Some structured_output \<Rightarrow>
          (case pretty_print_response structured_output of
             Some e \<Rightarrow>
               (Raise e, conversation @ [Message Assistant None (JStr response_message)], w)
           | None \<Rightarrow>
               (case structured_output of
                  JObj entries \<Rightarrow>
                    dispatch env self entries
                      (conversation @ [Message Assistant None (JStr response_message)]) w
                | _ \<Rightarrow>
                    (Raise AttributeError,
                     conversation @ [Message Assistant None (JStr response_message)], w))))"

text \<open>One pass through the body of the \<^verbatim>\<open>for\<close> loop.\<close>

definition iteration ::
  "'w env \<Rightarrow> 'w agent \<Rightarrow> message list \<Rightarrow> 'w \<Rightarrow> flow \<times> message list \<times> 'w" where
  "iteration env self conversation w =
     (case completion env (response_schema self) conversation w of
        (Inl e, w1) \<Rightarrow> (Raise e, conversation, w1)
      | (Inr response_message, w1) \<Rightarrow> process_response env self response_message conversation w1)"

definition sentinel :: json where
  "sentinel = JStr ''Error: Maximum retries reached.''"

text \<open>
  \<^verbatim>\<open>for _ in range(max_retries)\<close> with the \<^verbatim>\<open>return\<close> after it. The result is the
  exception raised or the value returned, with the transcript and the world as the
  call leaves them.
\<close>

fun call_loop :: "'w env \<Rightarrow> 'w agent \<Rightarrow> nat \<Rightarrow> message list \<Rightarrow> 'w
                    \<Rightarrow> (error + json) \<times> message list \<times> 'w" where
  "call_loop env self 0 conversation w = (Inr sentinel, conversation, w)"
| "call_loop env self (Suc n) conversation w =
     (case iteration env self conversation w of
        (Raise e, conversation', w') \<Rightarrow> (Inl e, conversation', w')
      | (Return v, conversation', w') \<Rightarrow> (Inr v, conversation', w')
      | (Continue, conversation', w') \<Rightarrow> call_loop env self n conversation' w')"

definition call :: "'w env \<Rightarrow> 'w agent \<Rightarrow> json \<Rightarrow> int \<Rightarrow> message list \<Rightarrow> 'w
                      \<Rightarrow> (error + json) \<times> message list \<times> 'w" where
  "call env self user_input max_retries conversation w =
     call_loop env self (nat max_retries) (conversation @ [Message User None user_input]) w"

definition default_max_retries :: int where
  "default_max_retries = 100"


text \<open>
  The hypothesis of retry exhaustion: each of the next \<open>n\<close> iterations completes and
  none of them returns.
\<close>

fun exhausts :: "'w env \<Rightarrow> 'w agent \<Rightarrow> nat \<Rightarrow> message list \<Rightarrow> 'w \<Rightarrow> bool" where
  "exhausts env self 0 conversation w = True"
| "exhausts env self (Suc n) conversation w =
     (case iteration env self conversation w of
        (Continue, conversation', w') \<Rightarrow> exhausts env self n conversation' w'
      | _ \<Rightarrow> False)"

section \<open>Example inputs\<close>

subsection \<open>Library functions on ASCII values\<close>

text \<open>
  \<^verbatim>\<open>str\<close> and \<^verbatim>\<open>json.dumps\<close> with its default arguments, on values without floats whose
  strings are ASCII, for use as the environment of the examples; and a factory for
  enumerations whose member names \<^verbatim>\<open>Enum\<close> accepts.
\<close>

function digits :: "nat \<Rightarrow> string" where
  "digits n = (if n < 10 then [char_of (48 + n)]
               else digits (n div 10) @ [char_of (48 + n mod 10)])"
  by pat_completeness auto
termination
  by (relation "measure id") auto

definition int_str :: "int \<Rightarrow> string" where
  "int_str i = (if i < 0 then ''-'' @ digits (nat (- i)) else digits (nat i))"

definition hex_digit :: "nat \<Rightarrow> char" where
  "hex_digit n = (if n < 10 then char_of (48 + n) else char_of (87 + n))"

fun join :: "string \<Rightarrow> string list \<Rightarrow> string" where
  "join sep [] = []"
| "join sep [x] = x"
| "join sep (x # y # zs) = x @ sep @ join sep (y # zs)"

text \<open>
  \<^verbatim>\<open>repr\<close> of a string: single quotes, unless the string has a single quote and no
  double quote; the quote and the backslash are escaped, and so are the control
  characters.
\<close>

definition repr_char :: "char \<Rightarrow> char \<Rightarrow> string" where
  "repr_char q c =
     (let n = (of_char c :: nat) in
      if c = q \<or> c = CHR 0x5C then [CHR 0x5C, c]
      else if n = 9 then [CHR 0x5C, CHR ''t'']
      else if n = 10 then [CHR 0x5C, CHR ''n'']
      else if n = 13 then [CHR 0x5C, CHR ''r'']
      else if n < 32 \<or> n = 127
        then [CHR 0x5C, CHR ''x'', hex_digit (n div 16), hex_digit (n mod 16)]
      else [c])"

definition repr_str :: "string \<Rightarrow> string" where
  "repr_str s =
     (let q = (if CHR 0x27 \<in> set s \<and> CHR 0x22 \<notin> set s then CHR 0x22 else CHR 0x27)
      in [q] @ concat (map (repr_char q) s) @ [q])"

fun py_repr :: "json \<Rightarrow> string"
  and py_repr_items :: "json list \<Rightarrow> string list"
  and py_repr_entries :: "(string \<times> json) list \<Rightarrow> string list"
where
  "py_repr JNull = ''None''"
| "py_repr (JBool b) = (if b then ''True'' else ''False'')"
| "py_repr (JInt i) = int_str i"
| "py_repr (JStr s) = repr_str s"
| "py_repr (JArr xs) = ''['' @ join '', '' (py_repr_items xs) @ '']''"
| "py_repr (JObj kvs) = ''{'' @ join '', '' (py_repr_entries kvs) @ ''}''"
| "py_repr_items [] = []"
| "py_repr_items (x # xs) = py_repr x # py_repr_items xs"
| "py_repr_entries [] = []"
| "py_repr_entries ((k, v) # kvs) = (repr_str k @ '': '' @ py_repr v) # py_repr_entries kvs"

definition ascii_str :: "json \<Rightarrow> string" where
  "ascii_str v = (case v of JStr s \<Rightarrow> s | _ \<Rightarrow> py_repr v)"

text \<open>
  \<^verbatim>\<open>json.dumps\<close>: the double quote, the backslash and every character outside the
  range from the space to the tilde are escaped.
\<close>

definition dumps_char :: "char \<Rightarrow> string" where
  "dumps_char c =
     (let n = (of_char c :: nat) in
      if c = CHR 0x22 then [CHR 0x5C, CHR 0x22]
      else if c = CHR 0x5C then [CHR 0x5C, CHR 0x5C]
      else if n = 10 then [CHR 0x5C, CHR ''n'']
      else if n = 13 then [CHR 0x5C, CHR ''r'']
      else if n = 9 then [CHR 0x5C, CHR ''t'']
      else if n = 8 then [CHR 0x5C, CHR ''b'']
      else if n = 12 then [CHR 0x5C, CHR ''f'']
      else if n < 32 \<or> n = 127
        then [CHR 0x5C, CHR ''u'', CHR ''0'', CHR ''0'', hex_digit (n div 16), hex_digit (n mod 16)]
      else [c])"

definition dumps_str :: "string \<Rightarrow> string" where
  "dumps_str s = [CHR 0x22] @ concat (map dumps_char s) @ [CHR 0x22]"

fun ascii_dumps :: "json \<Rightarrow> string"
  and ascii_dumps_items :: "json list \<Rightarrow> string list"
  and ascii_dumps_entries :: "(string \<times> json) list \<Rightarrow> string list"
where
  "ascii_dumps JNull = ''null''"
| "ascii_dumps (JBool b) = (if b then ''true'' else ''false'')"
| "ascii_dumps (JInt i) = int_str i"
| "ascii_dumps (JStr s) = dumps_str s"
| "ascii_dumps (JArr xs) = ''['' @ join '', '' (ascii_dumps_items xs) @ '']''"
| "ascii_dumps (JObj kvs) = ''{'' @ join '', '' (ascii_dumps_entries kvs) @ ''}''"
| "ascii_dumps_items [] = []"
| "ascii_dumps_items (x # xs) = ascii_dumps x # ascii_dumps_items xs"
| "ascii_dumps_entries [] = []"
| "ascii_dumps_entries ((k, v) # kvs) =
     (dumps_str k @ '': '' @ ascii_dumps v) # ascii_dumps_entries kvs"

definition plain_enum :: "(string \<times> string) list \<Rightarrow> error + json list" where
  "plain_enum members = Inr (map (JStr \<circ> snd) members)"

subsection \<open>Agents, responses and callables\<close>

text \<open>
  The set-up of \<^verbatim>\<open>main.py\<close>: \<^verbatim>\<open>Agent2\<close> registered as the one recipient of \<^verbatim>\<open>Agent1\<close>. The
  peer's \<^verbatim>\<open>call\<close> is left simple here: whatever the message, it answers with the
  greeting.
\<close>

definition agent2 :: "unit peer" where
  "agent2 =
     \<lparr> peer_name = ''Agent2'',
       peer_call = (\<lambda>message w. (Inr (JStr ''Hello, Alice! This is Agent2.''), w)) \<rparr>"

definition main_recipients :: "(unit peer \<times> string) list" where
  "main_recipients = [(agent2, ''provides greeting functionality'')]"

text \<open>
  An endpoint that always sends the same text, and a decoder that knows a few texts:
  responses with one of the two values of \<^verbatim>\<open>Action\<close>, with or without an
  \<^verbatim>\<open>Action Input\<close> and a \<^verbatim>\<open>Final Answer\<close>, and a list of two tool definitions.
\<close>

definition system_message :: message where
  "system_message = Message System None (JStr ''You reason and act to solve user queries.'')"

definition response_of :: "string \<Rightarrow> json \<Rightarrow> json \<Rightarrow> (string \<times> json) list" where
  "response_of action action_input final_answer =
     [(''Thought'', JStr ''thinking''),
      (''Action'', JStr action),
      (''Action Input'', action_input),
      (''Observation'', JNull),
      (''Final Answer'', final_answer)]"

definition hello_input :: json where
  "hello_input = JObj [(''name'', JStr ''say_hello''), (''arguments'', JObj [(''name'', JStr ''Alice'')])]"

definition boom_input :: json where
  "boom_input = JObj [(''name'', JStr ''boom''), (''arguments'', JObj [])]"

definition name_parameters :: json where
  "name_parameters =
     JObj [(''type'', JStr ''object''),
           (''properties'',
              JObj [(''name'', JObj [(''type'', JStr ''string''),
                                     (''title'', JStr ''Name''),
                                     (''description'', JStr ''Parameter for name'')])]),
           (''required'', JArr [JStr ''name'']),
           (''additionalProperties'', JBool False)]"

definition no_parameters :: json where
  "no_parameters =
     JObj [(''type'', JStr ''object''),
           (''properties'', JObj []),
           (''required'', JArr []),
           (''additionalProperties'', JBool False)]"

definition two_tools :: "(string \<times> string \<times> json) list" where
  "two_tools =
     [(''say_hello'', ''Greets.'', name_parameters),
      (''boom'', ''No description available.'', no_parameters)]"

definition two_tools_json :: json where
  "two_tools_json =
     JArr [JObj [(''function'',
                    JObj [(''name'', JStr ''say_hello''),
                          (''description'', JStr ''Greets.''),
                          (''parameters'', name_parameters),
                          (''strict'', JBool True)]),
                 (''type'', JStr ''function'')],
           JObj [(''function'',
                    JObj [(''name'', JStr ''boom''),
                          (''description'', JStr ''No description available.''),
                          (''parameters'', no_parameters),
                          (''strict'', JBool True)]),
                 (''type'', JStr ''function'')]]"

definition example_loads :: "string \<Rightarrow> json option" where
  "example_loads s =
     (if s = ''idle'' then Some (JObj (response_of ''NONE'' JNull JNull))
      else if s = ''answer'' then Some (JObj (response_of ''NONE'' JNull (JStr ''42'')))
      else if s = ''boom'' then Some (JObj (response_of ''CALL_FUNCTION'' boom_input JNull))
      else if s = ''hello'' then Some (JObj (response_of ''CALL_FUNCTION'' hello_input JNull))
      else if s = ''hello-none'' then Some (JObj (response_of ''NONE'' hello_input JNull))
      else if s = ''tools'' \<or> s = ''tools again'' then Some two_tools_json
      else None)"

definition example_env :: "string \<Rightarrow> unit env" where
  "example_env reply =
     \<lparr> completion = (\<lambda>schema conversation w. (Inr reply, w)),
       loads = example_loads,
       dumps = ascii_dumps,
       py_str = ascii_str \<rparr>"

text \<open>
  Two registered callables: \<^verbatim>\<open>say_hello\<close> of \<^verbatim>\<open>main.py\<close>, whose f-string formats whatever
  it is given as \<^verbatim>\<open>name\<close>, and one that raises whatever it is called with.
\<close>

definition say_hello :: "unit pyfunc" where
  "say_hello =
     \<lparr> sig_parameters = [(''name'', Some PStr)], fn_doc = None,
       fn_call = (\<lambda>kwargs w.
          if map fst kwargs = [''name'']
          then (Inr (JsonValue
                       (JStr (''Hello, '' @ ascii_str (dict_get kwargs ''name'')
                              @ ''! This is Agent2.''))), w)
          else (Inl TypeError, w)) \<rparr>"

definition boom :: "unit pyfunc" where
  "boom = \<lparr> sig_parameters = [], fn_doc = None,
            fn_call = (\<lambda>kwargs w. (Inl (Exception ''boom''), w)) \<rparr>"

definition example_agent :: "unit agent" where
  "example_agent =
     \<lparr> agent_name = ''Agent1'',
       agent_functions = [(''say_hello'', say_hello), (''boom'', boom)],
       response_schema = response_schema_of [null_branch] \<rparr>"

section \<open>Type-to-Schema Mapper\<close>

lemma get_schema_for_type_None: "get_schema_for_type PNone = Inl (ValueError PNone)"
  by simp

text \<open>
  What the list branch of the mapper does for an annotation with origin \<^verbatim>\<open>list\<close>: with
  parameters (\<^verbatim>\<open>List[T]\<close>, \<^verbatim>\<open>list[T]\<close>) the items are the schema of the first one, or the
  mapper raises as that one does; without parameters (\<^verbatim>\<open>typing.List\<close>) the items are
  strings.
\<close>

lemma list_branch:
  "(get_schema_for_type elem = Inr items \<longrightarrow>
      get_schema_for_type (PGeneric OList (elem # rest)) =
        Inr (JObj [(''type'', JStr ''array''), (''items'', items)]))
   \<and> (get_schema_for_type elem = Inl e \<longrightarrow>
      get_schema_for_type (PGeneric OList (elem # rest)) = Inl e)
   \<and> get_schema_for_type (PGeneric OList []) =
        Inr (JObj [(''type'', JStr ''array''), (''items'', JObj [(''type'', JStr ''string'')])])"
  by (simp add: array_schema_def type_schema_def)

text \<open>
  C7, at the builtin \<^verbatim>\<open>list\<close> written without an element type. The list branch gives
  an unparameterised list string items, and \<^verbatim>\<open>typing.List\<close> reaches it. The builtin
  \<^verbatim>\<open>list\<close> does not: it has no origin, so the table of \<^verbatim>\<open>get_python_type\<close> answers
  before the list branch is tried, and the schema is \<^verbatim>\<open>{"type": "array"}\<close>, with no
  \<^verbatim>\<open>items\<close> field at all.
\<close>

theorem bare_list_has_no_items:
  "get_schema_for_type (PGeneric OList []) =
     Inr (JObj [(''type'', JStr ''array''), (''items'', JObj [(''type'', JStr ''string'')])])
   \<and> get_schema_for_type PList = Inr (JObj [(''type'', JStr ''array'')])
   \<and> subscript (JObj [(''type'', JStr ''array'')]) ''items'' = Inl (KeyError (JStr ''items''))
   \<and> get_schema_for_type PList \<noteq> get_schema_for_type (PGeneric OList [])"
  by (simp add: type_schema_def array_schema_def)

text \<open>
  C8. For a mapping annotation with key type \<open>K\<close> and value type \<open>V\<close>, both of which
  the mapper maps to a schema, the result is the object schema with the two
  properties \<^verbatim>\<open>property1\<close> (the schema of \<open>K\<close>) and \<^verbatim>\<open>property2\<close> (the schema of \<open>V\<close>)
  and no other, both listed in \<^verbatim>\<open>required\<close>, with \<^verbatim>\<open>additionalProperties\<close> false.
\<close>

theorem mapping_schema:
  assumes "get_schema_for_type K = Inr key_schema"
      and "get_schema_for_type V = Inr value_schema"
  shows "get_schema_for_type (PGeneric ODict [K, V]) =
           Inr (JObj [(''type'', JStr ''object''),
                      (''properties'',
                         JObj [(''property1'', key_schema), (''property2'', value_schema)]),
                      (''required'', JArr [JStr ''property1'', JStr ''property2'']),
                      (''additionalProperties'', JBool False)])"
proof -
  have "K \<noteq> PNone" and "V \<noteq> PNone"
    using assms get_schema_for_type_None by auto
  with assms show ?thesis
    by (simp add: pair_schema_def)
qed

theorem mapping_schema_witness:
  "get_schema_for_type PStr = Inr (type_schema ''string'')
   \<and> get_schema_for_type (PGeneric OList [PInt]) = Inr (array_schema (type_schema ''integer''))
   \<and> get_schema_for_type (PGeneric ODict [PStr, PGeneric OList [PInt]]) =
        Inr (JObj [(''type'', JStr ''object''),
                   (''properties'',
                      JObj [(''property1'', type_schema ''string''),
                            (''property2'', array_schema (type_schema ''integer''))]),
                   (''required'', JArr [JStr ''property1'', JStr ''property2'']),
                   (''additionalProperties'', JBool False)])"
proof -
  have k: "get_schema_for_type PStr = Inr (type_schema ''string'')"
    by simp
  have v: "get_schema_for_type (PGeneric OList [PInt]) = Inr (array_schema (type_schema ''integer''))"
    by simp
  show ?thesis
    using k v mapping_schema [OF k v] by simp
qed


section \<open>Response Schema Builder\<close>

lemma branches_loop_tool:
  "branches_loop acc (tool_definition name description parameters # rest) =
     branches_loop (acc @ [action_branch (JStr name) (JStr description) parameters]) rest"
  by (simp add: tool_definition_def)

lemma branches_loop_tools:
  "branches_loop acc
     (map (\<lambda>(name, description, parameters). tool_definition name description parameters) tools)
   = Inr (acc @ map (\<lambda>(name, description, parameters).
                        action_branch (JStr name) (JStr description) parameters) tools)"
proof (induction tools arbitrary: acc)
  case Nil
  show ?case by simp
next
  case (Cons t tools)
  obtain name description parameters where t: "t = (name, description, parameters)"
    by (cases t)
  show ?case
    by (simp add: t Cons.IH branches_loop_tool del: branches_loop.simps)
qed

text \<open>
  The tool definitions that the extractor builds have the shape the builder reads.
\<close>

lemma functions_loop_shape:
  assumes "functions_loop (map (\<lambda>(name, description, parameters).
                                  tool_definition name description parameters) done) fs = Inr schema"
  shows "\<exists>tools. schema = map (\<lambda>(name, description, parameters).
                                   tool_definition name description parameters) tools"
  using assms
proof (induction fs arbitrary: "done")
  case Nil
  then show ?case by auto
next
  case (Cons f fs)
  obtain name func where f: "f = (name, func)"
    by (cases f)
  from Cons.prems f obtain ps where
    ps: "parameters_loop [] (sig_parameters func) = Inr ps"
    and rest: "functions_loop
                 (map (\<lambda>(name, description, parameters).
                         tool_definition name description parameters) done
                  @ [tool_definition name (description_of (fn_doc func)) (parameters_object ps)])
                 fs = Inr schema"
    by (auto split: sum.splits)
  have "map (\<lambda>(name, description, parameters). tool_definition name description parameters) done
          @ [tool_definition name (description_of (fn_doc func)) (parameters_object ps)]
        = map (\<lambda>(name, description, parameters). tool_definition name description parameters)
            (done @ [(name, description_of (fn_doc func), parameters_object ps)])"
    by simp
  with rest Cons.IH show ?case
    by metis
qed

text \<open>
  C9. Take two builds, each from a text and a decoder of its own, that decode to the
  same sequence of tool definitions (name, description, parameter schema). Each
  build gives the same list of \<^verbatim>\<open>Action Input\<close> branches: one branch per tool, in the
  order of the tools, whose \<^verbatim>\<open>name\<close> admits the name of that tool only and whose
  \<^verbatim>\<open>arguments\<close> is that tool's parameter schema, followed by the null branch. Each
  build gives the same output schema, the five-field object written out below with
  these branches under \<^verbatim>\<open>Action Input\<close>.
\<close>

theorem output_schema_ordered:
  fixes tools :: "(string \<times> string \<times> json) list"
  defines "branches \<equiv>
             map (\<lambda>(name, description, parameters).
                    JObj [(''type'', JStr ''object''),
                          (''properties'',
                             JObj [(''name'', JObj [(''enum'', JArr [JStr name]),
                                                    (''description'', JStr description)]),
                                   (''arguments'', parameters)]),
                          (''required'', JArr [JStr ''name'', JStr ''arguments'']),
                          (''additionalProperties'', JBool False)]) tools
             @ [JObj [(''type'', JStr ''null'')]]"
  defines "schema \<equiv>
             JObj [(''type'', JStr ''object''),
                   (''description'',
                      JStr ''Schema for AI responses ensuring strict JSON formatting.''),
                   (''properties'',
                      JObj [(''Thought'',
                               JObj [(''type'', JStr ''string''),
                                     (''description'',
                                        JStr (''AI'' @ [CHR 0x27]
                                              @ ''s reasoning before taking action.''))]),
                            (''Action'',
                               JObj [(''type'', JStr ''string''),
                                     (''enum'', JArr [JStr ''CALL_FUNCTION'', JStr ''NONE'']),
                                     (''description'', JStr ''Chosen action.'')]),
                            (''Action Input'', JObj [(''anyOf'', JArr branches)]),
                            (''Observation'',
                               JObj [(''anyOf'',
                                        JArr [JObj [(''type'', JStr ''string'')],
                                              JObj [(''type'', JStr ''null'')],
                                              JObj [(''type'', JStr ''object''),
                                                    (''additionalProperties'', JBool False)]]),
                                     (''description'', JStr ''Result of the executed action.'')]),
                            (''Final Answer'',
                               JObj [(''anyOf'',
                                        JArr [JObj [(''type'', JStr ''string'')],
                                              JObj [(''type'', JStr ''null'')]]),
                                     (''description'',
                                        JStr ''Final answer to the query. Should be null if an action is executed.'')])]),
                   (''additionalProperties'', JBool False),
                   (''required'',
                      JArr [JStr ''Thought'', JStr ''Action'', JStr ''Action Input'',
                            JStr ''Observation'', JStr ''Final Answer''])]"
  assumes dec1: "loads1 s1 =
             Some (JArr (map (\<lambda>(name, description, parameters).
                                JObj [(''function'',
                                         JObj [(''name'', JStr name),
                                               (''description'', JStr description),
                                               (''parameters'', parameters),
                                               (''strict'', JBool True)]),
                                      (''type'', JStr ''function'')]) tools))"
      and dec2: "loads2 s2 = loads1 s1"
  shows "build_action_input_schema loads1 s1 = Inr branches
         \<and> build_action_input_schema loads2 s2 = Inr branches
         \<and> generate_response_schema loads1 s1 = Inr schema
         \<and> generate_response_schema loads2 s2 = Inr schema
         \<and> length branches = length tools + 1"
proof -
  have shape: "(\<lambda>(name, description, parameters).
                  JObj [(''function'',
                           JObj [(''name'', JStr name),
                                 (''description'', JStr description),
                                 (''parameters'', parameters),
                                 (''strict'', JBool True)]),
                        (''type'', JStr ''function'')])
               = (\<lambda>(name, description, parameters). tool_definition name description parameters)"
    by (simp add: tool_definition_def fun_eq_iff)
  have br: "branches =
              map (\<lambda>(name, description, parameters).
                     action_branch (JStr name) (JStr description) parameters) tools
              @ [null_branch]"
    by (simp add: branches_def action_branch_def null_branch_def)
  have b1: "build_action_input_schema loads1 s1 = Inr branches"
    using dec1 unfolding shape
    by (simp add: build_action_input_schema_def branches_loop_tools br)
  have b2: "build_action_input_schema loads2 s2 = Inr branches"
    using dec1 dec2 unfolding shape
    by (simp add: build_action_input_schema_def branches_loop_tools br)
  have sc: "schema = response_schema_of branches"
    by (simp add: schema_def response_schema_of_def)
  have "generate_response_schema loads1 s1 = Inr schema"
    by (simp add: generate_response_schema_def b1 sc)
  moreover have "generate_response_schema loads2 s2 = Inr schema"
    by (simp add: generate_response_schema_def b2 sc)
  moreover have "length branches = length tools + 1"
    by (simp add: branches_def)
  ultimately show ?thesis
    using b1 b2 by blast
qed

text \<open>
  Two tools, \<^verbatim>\<open>say_hello\<close> before \<^verbatim>\<open>boom\<close>, decoded from two different texts: both builds
  give the branch of \<^verbatim>\<open>say_hello\<close>, then the branch of \<^verbatim>\<open>boom\<close>, then the null branch.
\<close>

theorem output_schema_ordered_witness:
  "example_loads ''tools'' = Some two_tools_json
   \<and> example_loads ''tools again'' = example_loads ''tools''
   \<and> build_action_input_schema example_loads ''tools'' =
       Inr [JObj [(''type'', JStr ''object''),
                  (''properties'',
                     JObj [(''name'', JObj [(''enum'', JArr [JStr ''say_hello'']),
                                            (''description'', JStr ''Greets.'')]),
                           (''arguments'', name_parameters)]),
                  (''required'', JArr [JStr ''name'', JStr ''arguments'']),
                  (''additionalProperties'', JBool False)],
            JObj [(''type'', JStr ''object''),
                  (''properties'',
                     JObj [(''name'', JObj [(''enum'', JArr [JStr ''boom'']),
                                            (''description'', JStr ''No description available.'')]),
                           (''arguments'', no_parameters)]),
                  (''required'', JArr [JStr ''name'', JStr ''arguments'']),
                  (''additionalProperties'', JBool False)],
            JObj [(''type'', JStr ''null'')]]
   \<and> build_action_input_schema example_loads ''tools again'' =
       build_action_input_schema example_loads ''tools''
   \<and> generate_response_schema example_loads ''tools again'' =
       generate_response_schema example_loads ''tools''"
proof -
  have l1: "example_loads ''tools'' =
              Some (JArr (map (\<lambda>(name, description, parameters).
                                JObj [(''function'',
                                         JObj [(''name'', JStr name),
                                               (''description'', JStr description),
                                               (''parameters'', parameters),
                                               (''strict'', JBool True)]),
                                      (''type'', JStr ''function'')]) two_tools))"
    by (simp add: example_loads_def two_tools_json_def two_tools_def)
  have l2: "example_loads ''tools again'' = example_loads ''tools''"
    by (simp add: example_loads_def)
  show ?thesis
    using output_schema_ordered
            [where ?loads1.0 = example_loads and ?s1.0 = "''tools''" and tools = two_tools
               and ?loads2.0 = example_loads and ?s2.0 = "''tools again''", OF l1 l2]
          l1 l2
    by (simp add: two_tools_def two_tools_json_def)
qed

section \<open>Recipient Registration\<close>

text \<open>
  What the generated function does when the loop calls it with a message and the
  lower-cased name of a registered peer: it hands the message to that peer's \<^verbatim>\<open>call\<close>
  and returns what the peer returns.
\<close>

lemma generated_function_forwards:
  assumes "map_of mapping recipient = Some p"
      and "peer_call p message w = (Inr result, w')"
  shows "generated_function mapping
           [(''message'', message), (''recipient_name'', JStr recipient)] w =
         (Inr (JsonValue result), w')"
  using assms by (simp add: generated_function_def dict_get_def)

text \<open>
  C2, on the registration of \<^verbatim>\<open>main.py\<close>. The function that \<^verbatim>\<open>_register_recipients\<close>
  generates has three parameters: \<^verbatim>\<open>message\<close>, \<^verbatim>\<open>recipient_name\<close> and \<^verbatim>\<open>function_doc\<close>, the
  last one being the default argument that carries the documentation text into the
  body. The extractor lists every parameter of the signature, so the tool definition
  of \<^verbatim>\<open>talk_to_agent2\<close> has three properties, all required, where the claim has two.
\<close>

theorem recipient_tool_has_three_parameters:
  "map_sum id (map (\<lambda>(name, func). (name, map fst (sig_parameters func))))
     (register_recipients plain_enum [] main_recipients) =
     Inr [(''talk_to_agent2'', [''message'', ''recipient_name'', ''function_doc''])]
   \<and> (case register_recipients plain_enum [] main_recipients of
         Inl e \<Rightarrow> Inl e
       | Inr fs \<Rightarrow> functions_loop [] fs) =
       Inr [JObj [(''function'',
                     JObj [(''name'', JStr ''talk_to_agent2''),
                           (''description'', JStr ''No description available.''),
                           (''parameters'',
                              JObj [(''type'', JStr ''object''),
                                    (''properties'',
                                       JObj [(''message'',
                                                JObj [(''type'', JStr ''string''),
                                                      (''title'', JStr ''Message''),
                                                      (''description'', JStr ''Parameter for message'')]),
                                             (''recipient_name'',
                                                JObj [(''type'', JStr ''string''),
                                                      (''enum'', JArr [JStr ''agent2'']),
                                                      (''title'', JStr ''Recipient_name''),
                                                      (''description'',
                                                         JStr ''Parameter for recipient_name'')]),
                                             (''function_doc'',
                                                JObj [(''type'', JStr ''string''),
                                                      (''title'', JStr ''Function_doc''),
                                                      (''description'',
                                                         JStr ''Parameter for function_doc'')])]),
                                    (''required'',
                                       JArr [JStr ''message'', JStr ''recipient_name'',
                                             JStr ''function_doc'']),
                                    (''additionalProperties'', JBool False)]),
                           (''strict'', JBool True)]),
                  (''type'', JStr ''function'')]]"
  by code_simp

section \<open>Agent loop\<close>

lemma iteration_process:
  "completion env (response_schema self) conversation w = (Inr raw, w1) \<Longrightarrow>
   iteration env self conversation w = process_response env self raw conversation w1"
  by (simp add: iteration_def)

lemma process_response_object:
  "loads env raw = Some (JObj so) \<Longrightarrow>
   process_response env self raw conversation w =
     dispatch env self so (conversation @ [Message Assistant None (JStr raw)]) w"
  by (simp add: process_response_def)

lemma dispatch_final_answer:
  "truthy (dict_get so ''Final Answer'') \<Longrightarrow>
   dispatch env self so conversation w = (Return (dict_get so ''Final Answer''), conversation, w)"
  by (simp add: dispatch_def)


text \<open>The branches never read the transcript: they only append to it.\<close>

lemma dispatch_frame:
  "dispatch env self so conversation w =
     (case dispatch env self so [] w of (fl, added, w') \<Rightarrow> (fl, conversation @ added, w'))"
  by (simp add: dispatch_def split: json.splits prod.splits sum.splits pyobj.splits)

text \<open>What each outcome of the branch says about the response and the transcript.\<close>

lemma dispatch_outcome:
  assumes "dispatch env self so conversation w = (fl, conversation', w')"
  shows "case fl of
           Return v \<Rightarrow>
             v = dict_get so ''Final Answer'' \<and> truthy v \<and> conversation' = conversation
         | Continue \<Rightarrow>
             \<not> truthy (dict_get so ''Final Answer'')
             \<and> (if truthy (dict_get so ''Action Input'')
                 then \<exists>action_input arguments function_result.
                        dict_get so ''Action Input'' = JObj action_input
                        \<and> dict_get_default action_input ''arguments'' (JObj []) = JObj arguments
                        \<and> call_function env self (dict_get action_input ''name'') arguments w =
                            (Inr (JsonValue function_result), w')
                        \<and> conversation' =
                            conversation
                              @ [Message Function (Some (dict_get action_input ''name''))
                                   (JStr (dumps env function_result))]
                 else conversation' = conversation @ [corrective_message] \<and> w' = w)
         | Raise e \<Rightarrow> conversation' = conversation"
  using assms
  by (auto simp: dispatch_def split: if_splits json.splits prod.splits sum.splits pyobj.splits)


lemma call_loop_raise:
  "0 < n \<Longrightarrow> iteration env self conversation w = (Raise e, conversation', w') \<Longrightarrow>
   call_loop env self n conversation w = (Inl e, conversation', w')"
  by (cases n) simp_all

lemma idle_iteration:
  "iteration (example_env ''idle'') example_agent conversation w =
     (Continue, conversation @ [Message Assistant None (JStr ''idle''), corrective_message], w)"
  by (simp add: iteration_def process_response_def dispatch_def example_env_def example_loads_def
                response_of_def dict_get_def)

lemma hello_iteration:
  "iteration (example_env ''hello'') example_agent [system_message] () =
     (Continue,
      [system_message, Message Assistant None (JStr ''hello''),
       Message Function (Some (JStr ''say_hello''))
         (JStr ([CHR 0x22] @ ''Hello, Alice! This is Agent2.'' @ [CHR 0x22]))],
      ())"
  by (simp add: iteration_def process_response_def dispatch_def call_function_def
                example_env_def example_loads_def example_agent_def say_hello_def
                hello_input_def response_of_def dict_get_def dict_get_default_def
                ascii_str_def dumps_str_def dumps_char_def)


text \<open>
  The two ways a dispatch can go wrong. A name that is not in the registry leads to
  an error record that is serialised into the function-result message, and the loop
  continues. A registered callable that raises ends the iteration with its
  exception, after the assistant message and before any function-result message.
\<close>

lemma unknown_function_feeds_back:
  assumes "completion env (response_schema self) conversation w = (Inr raw, w1)"
      and "loads env raw = Some (JObj so)"
      and "\<not> truthy (dict_get so ''Final Answer'')"
      and "dict_get so ''Action Input'' = JObj action_input"
      and "action_input \<noteq> []"
      and "dict_get action_input ''name'' = JStr name"
      and "dict_get_default action_input ''arguments'' (JObj []) = JObj arguments"
      and "''function_name'' \<notin> set (map fst arguments)"
      and "''self'' \<notin> set (map fst arguments)"
      and "map_of (agent_functions self) name = None"
  shows "iteration env self conversation w =
           (Continue,
            conversation
              @ [Message Assistant None (JStr raw),
                 Message Function (Some (JStr name))
                   (JStr (dumps env
                            (JObj [(''error'',
                                    JStr (''Unknown function '' @ [CHR 0x27] @ name @ [CHR 0x27]))])))],
            w1)"
  using assms
  by (simp add: iteration_process process_response_object dispatch_def call_function_def
                format_value_def)

lemma raising_callable_propagates:
  assumes "completion env (response_schema self) conversation w = (Inr raw, w1)"
      and "loads env raw = Some (JObj so)"
      and "\<not> truthy (dict_get so ''Final Answer'')"
      and "dict_get so ''Action Input'' = JObj action_input"
      and "action_input \<noteq> []"
      and "dict_get action_input ''name'' = JStr name"
      and "dict_get_default action_input ''arguments'' (JObj []) = JObj arguments"
      and "''function_name'' \<notin> set (map fst arguments)"
      and "''self'' \<notin> set (map fst arguments)"
      and "map_of (agent_functions self) name = Some function"
      and "fn_call function arguments w1 = (Inl e, w2)"
  shows "iteration env self conversation w =
           (Raise e, conversation @ [Message Assistant None (JStr raw)], w2)"
  using assms
  by (simp add: iteration_process process_response_object dispatch_def call_function_def)

text \<open>
  C1, on a registry whose callable \<^verbatim>\<open>boom\<close> raises, with a response that asks for it:
  \<^verbatim>\<open>call_function\<close> returns the callable's result without guarding the call, so the
  exception leaves \<^verbatim>\<open>call\<close> in the first iteration. The transcript holds the user and
  the assistant message and no function-result message, and no further iteration
  runs.
\<close>

theorem raising_callable_fails_call:
  "call (example_env ''boom'') example_agent (JStr ''go'') default_max_retries [system_message] () =
     (Inl (Exception ''boom''),
      [system_message, Message User None (JStr ''go''), Message Assistant None (JStr ''boom'')],
      ())"
proof -
  have it: "iteration (example_env ''boom'') example_agent
              [system_message, Message User None (JStr ''go'')] () =
     (Raise (Exception ''boom''),
      [system_message, Message User None (JStr ''go''), Message Assistant None (JStr ''boom'')],
      ())"
    by (simp add: iteration_def process_response_def dispatch_def call_function_def
                  example_env_def example_loads_def example_agent_def boom_def boom_input_def
                  response_of_def dict_get_def dict_get_default_def)
  have n: "0 < nat default_max_retries"
    by (simp add: default_max_retries_def)
  show ?thesis
    unfolding call_def using call_loop_raise [OF n it] by simp
qed



text \<open>
  C4. In an iteration whose response decodes to a record with a \<^verbatim>\<open>Final Answer\<close> that
  Python counts as true (for the string-or-null field of the response schema: any
  string but the empty one), the loop ends there and the call returns that value.
  The transcript gains the assistant message only and the world is as the completion
  request left it: no registered function has run.
\<close>

theorem final_answer_terminates:
  assumes "completion env (response_schema self) conversation w = (Inr raw, w1)"
      and "loads env raw = Some (JObj so)"
      and "map_of so ''Final Answer'' = Some v"
      and "truthy v"
  shows "iteration env self conversation w =
           (Return v, conversation @ [Message Assistant None (JStr raw)], w1)
         \<and> call_loop env self (Suc n) conversation w =
             (Inr v, conversation @ [Message Assistant None (JStr raw)], w1)"
proof -
  have "dict_get so ''Final Answer'' = v"
    using assms(3) by (simp add: dict_get_def)
  then have it: "iteration env self conversation w =
      (Return v, conversation @ [Message Assistant None (JStr raw)], w1)"
    using assms(1,2,4) by (simp add: iteration_process process_response_object dispatch_final_answer)
  then show ?thesis by simp
qed

theorem final_answer_terminates_witness:
  "completion (example_env ''answer'') (response_schema example_agent) [system_message] () =
     (Inr ''answer'', ())
   \<and> loads (example_env ''answer'') ''answer'' = Some (JObj (response_of ''NONE'' JNull (JStr ''42'')))
   \<and> map_of (response_of ''NONE'' JNull (JStr ''42'')) ''Final Answer'' = Some (JStr ''42'')
   \<and> truthy (JStr ''42'')
   \<and> iteration (example_env ''answer'') example_agent [system_message] () =
        (Return (JStr ''42''), [system_message, Message Assistant None (JStr ''answer'')], ())
   \<and> call_loop (example_env ''answer'') example_agent (Suc 99) [system_message] () =
        (Inr (JStr ''42''), [system_message, Message Assistant None (JStr ''answer'')], ())"
proof -
  have c: "completion (example_env ''answer'') (response_schema example_agent) [system_message] () =
     (Inr ''answer'', ())"
    by (simp add: example_env_def)
  have l: "loads (example_env ''answer'') ''answer'' =
             Some (JObj (response_of ''NONE'' JNull (JStr ''42'')))"
    by (simp add: example_env_def example_loads_def)
  have f: "map_of (response_of ''NONE'' JNull (JStr ''42'')) ''Final Answer'' = Some (JStr ''42'')"
    by (simp add: response_of_def)
  have t: "truthy (JStr ''42'')"
    by simp
  show ?thesis
    using final_answer_terminates [OF c l f t, of 99] c l f t
    by simp
qed

text \<open>
  For the field type of the response schema, the test of the loop is the one the
  spec words: a string or null is true in Python exactly when it is neither null
  nor the empty string.
\<close>

lemma truthy_string_or_null:
  "v = JNull \<or> v = JStr s \<Longrightarrow> truthy v \<longleftrightarrow> v \<noteq> JNull \<and> v \<noteq> JStr []"
  by auto

lemma exhausts_call_loop:
  "exhausts env self n conversation w \<Longrightarrow>
   fst (call_loop env self n conversation w) = Inr sentinel"
proof (induction n arbitrary: conversation w)
  case 0
  show ?case by simp
next
  case (Suc n)
  then show ?case
    by (auto split: prod.splits flow.splits)
qed

text \<open>
  C5. When each of the \<^verbatim>\<open>max_retries\<close> iterations of a call completes and none returns,
  the call returns the sentinel string; it does not raise. The default of
  \<^verbatim>\<open>max_retries\<close> is 100.
\<close>

theorem retries_exhausted_sentinel:
  assumes "exhausts env self (nat max_retries) (conversation @ [Message User None user_input]) w"
  shows "fst (call env self user_input max_retries conversation w) =
           Inr (JStr ''Error: Maximum retries reached.'')"
  using exhausts_call_loop [OF assms] by (simp add: call_def sentinel_def)

lemma idle_exhausts: "exhausts (example_env ''idle'') example_agent n conversation w"
  by (induction n arbitrary: conversation w) (simp_all add: idle_iteration)

theorem retries_exhausted_sentinel_witness:
  "default_max_retries = 100
   \<and> exhausts (example_env ''idle'') example_agent (nat default_max_retries)
       ([system_message] @ [Message User None (JStr ''go'')]) ()
   \<and> fst (call (example_env ''idle'') example_agent (JStr ''go'') default_max_retries
             [system_message] ()) = Inr (JStr ''Error: Maximum retries reached.'')"
  using retries_exhausted_sentinel
          [where max_retries = default_max_retries and conversation = "[system_message]"
             and user_input = "JStr ''go''" and w = "()", OF idle_exhausts]
        idle_exhausts
  by (simp add: default_max_retries_def)

text \<open>
  C6, as the spec states it, at an iteration whose response has neither \<^verbatim>\<open>Final Answer\<close>
  nor \<^verbatim>\<open>Action Input\<close>: the iteration completes, it calls no function (the second new
  entry is the corrective system message), and the transcript grows by two entries,
  not by one.
\<close>

theorem corrective_iteration_grows_by_two:
  "iteration (example_env ''idle'') example_agent [system_message] () =
     (Continue, [system_message, Message Assistant None (JStr ''idle''), corrective_message], ())
   \<and> length [system_message, Message Assistant None (JStr ''idle''), corrective_message] =
       length [system_message] + 2
   \<and> msg_role corrective_message = System"
  by (simp add: idle_iteration corrective_message_def)

text \<open>
  C6, amended. Every iteration leaves the transcript it found as a prefix of the new
  one. An iteration that returns has a response with a true \<^verbatim>\<open>Final Answer\<close> and adds
  exactly one entry, the assistant message. An iteration that continues has a
  response without a true \<^verbatim>\<open>Final Answer\<close> and adds exactly two entries, the assistant
  message and one more: if \<^verbatim>\<open>Action Input\<close> is true (a dispatch iteration), the
  function-result message that carries the name asked for and the serialised result
  of \<^verbatim>\<open>call_function\<close>; if it is not, the corrective system message. An iteration that
  raises has added the assistant message or nothing.
\<close>

theorem transcript_growth:
  assumes "iteration env self conversation w = (fl, conversation', w')"
  shows "\<exists>added. conversation' = conversation @ added
           \<and> (case fl of
                 Return v \<Rightarrow>
                   (\<exists>raw w1 so.
                      completion env (response_schema self) conversation w = (Inr raw, w1)
                      \<and> loads env raw = Some (JObj so)
                      \<and> v = dict_get so ''Final Answer'' \<and> truthy v
                      \<and> added = [Message Assistant None (JStr raw)])
               | Continue \<Rightarrow>
                   (\<exists>raw w1 so.
                      completion env (response_schema self) conversation w = (Inr raw, w1)
                      \<and> loads env raw = Some (JObj so)
                      \<and> \<not> truthy (dict_get so ''Final Answer'')
                      \<and> (if truthy (dict_get so ''Action Input'')
                          then \<exists>action_input arguments function_result.
                                 dict_get so ''Action Input'' = JObj action_input
                                 \<and> dict_get_default action_input ''arguments'' (JObj []) =
                                     JObj arguments
                                 \<and> call_function env self (dict_get action_input ''name'')
                                       arguments w1 = (Inr (JsonValue function_result), w')
                                 \<and> added =
                                     [Message Assistant None (JStr raw),
                                      Message Function (Some (dict_get action_input ''name''))
                                        (JStr (dumps env function_result))]
                          else added = [Message Assistant None (JStr raw), corrective_message]))
               | Raise e \<Rightarrow> length added \<le> 1)"
proof (cases "completion env (response_schema self) conversation w")
  case (Pair r w1)
  show ?thesis
  proof (cases r)
    case (Inl e)
    with Pair assms show ?thesis by (auto simp: iteration_def)
  next
    case (Inr raw)
    with Pair have c: "completion env (response_schema self) conversation w = (Inr raw, w1)"
      by simp
    with assms have p: "process_response env self raw conversation w1 = (fl, conversation', w')"
      by (simp add: iteration_def)
    show ?thesis
    proof (cases "loads env raw")
      case None
      with p show ?thesis by (auto simp: process_response_def)
    next
      case (Some parsed)
      show ?thesis
      proof (cases parsed)
        case (JObj so)
        with Some have l: "loads env raw = Some (JObj so)"
          by simp
        with p have d: "dispatch env self so
            (conversation @ [Message Assistant None (JStr raw)]) w1 = (fl, conversation', w')"
          by (simp add: process_response_def)
        show ?thesis
        proof (cases fl)
          case (Raise e)
          with dispatch_outcome [OF d] show ?thesis by simp
        next
          case (Return v)
          with dispatch_outcome [OF d] c l show ?thesis by auto
        next
          case Continue
          with dispatch_outcome [OF d] c l show ?thesis
            by (cases "truthy (dict_get so ''Action Input'')") auto
        qed
      qed (use Some p in \<open>auto simp: process_response_def\<close>)
    qed
  qed
qed

lemma answer_iteration:
  "iteration (example_env ''answer'') example_agent conversation w =
     (Return (JStr ''42''), conversation @ [Message Assistant None (JStr ''answer'')], w)"
  by (simp add: iteration_def process_response_def dispatch_def example_env_def example_loads_def
                response_of_def dict_get_def)

text \<open>
  A dispatch iteration (two entries, the second a function result), a corrective
  iteration (two entries, the second the corrective message) and a returning
  iteration (one entry).
\<close>

theorem transcript_growth_witness:
  "iteration (example_env ''hello'') example_agent [system_message] () =
     (Continue,
      [system_message, Message Assistant None (JStr ''hello''),
       Message Function (Some (JStr ''say_hello''))
         (JStr ([CHR 0x22] @ ''Hello, Alice! This is Agent2.'' @ [CHR 0x22]))],
      ())
   \<and> (\<exists>added.
         [system_message, Message Assistant None (JStr ''hello''),
          Message Function (Some (JStr ''say_hello''))
            (JStr ([CHR 0x22] @ ''Hello, Alice! This is Agent2.'' @ [CHR 0x22]))]
           = [system_message] @ added
         \<and> length added = 2)
   \<and> iteration (example_env ''idle'') example_agent [system_message] () =
       (Continue,
        [system_message, Message Assistant None (JStr ''idle''), corrective_message], ())
   \<and> (\<exists>added.
         [system_message, Message Assistant None (JStr ''idle''), corrective_message]
           = [system_message] @ added
         \<and> length added = 2)
   \<and> iteration (example_env ''answer'') example_agent [system_message] () =
       (Return (JStr ''42''), [system_message, Message Assistant None (JStr ''answer'')], ())
   \<and> (\<exists>added.
         [system_message, Message Assistant None (JStr ''answer'')] = [system_message] @ added
         \<and> length added = 1)"
  using transcript_growth [OF hello_iteration]
        transcript_growth [OF idle_iteration [of "[system_message]" "()"]]
        transcript_growth [OF answer_iteration [of "[system_message]" "()"]]
        hello_iteration idle_iteration [of "[system_message]" "()"]
        answer_iteration [of "[system_message]" "()"]
  by auto

text \<open>
  C10. Two responses that decode to records with the same \<^verbatim>\<open>Final Answer\<close> and the same
  \<^verbatim>\<open>Action Input\<close> (an absent field counting as null) are treated alike whatever their
  other fields, \<^verbatim>\<open>Action\<close> among them, hold: the three-way branch gives the same
  outcome (return with the same value, continue, or raise with the same error), the
  same entries appended and the same world; in the whole iteration the transcripts
  differ only in the assistant message that quotes each response.
\<close>

theorem action_field_ignored:
  assumes "loads env raw1 = Some (JObj so1)"
      and "loads env raw2 = Some (JObj so2)"
      and "dict_get so1 ''Final Answer'' = dict_get so2 ''Final Answer''"
      and "dict_get so1 ''Action Input'' = dict_get so2 ''Action Input''"
  shows "dispatch env self so1 conversation w = dispatch env self so2 conversation w
         \<and> (\<exists>fl added w'.
               process_response env self raw1 conversation w =
                 (fl, conversation @ Message Assistant None (JStr raw1) # added, w')
               \<and> process_response env self raw2 conversation w =
                 (fl, conversation @ Message Assistant None (JStr raw2) # added, w'))"
proof -
  have eq: "dispatch env self so1 c w = dispatch env self so2 c w" for c
    using assms(3,4) by (simp add: dispatch_def)
  obtain fl added w' where d: "dispatch env self so1 [] w = (fl, added, w')"
    by (cases "dispatch env self so1 [] w") auto
  then have d2: "dispatch env self so2 [] w = (fl, added, w')"
    using eq by simp
  have "process_response env self raw1 conversation w =
          (fl, conversation @ Message Assistant None (JStr raw1) # added, w')"
    using assms(1) d
    by (simp add: process_response_object
                  dispatch_frame [of env self so1 "conversation @ [Message Assistant None (JStr raw1)]"])
  moreover have "process_response env self raw2 conversation w =
          (fl, conversation @ Message Assistant None (JStr raw2) # added, w')"
    using assms(2) d2
    by (simp add: process_response_object
                  dispatch_frame [of env self so2 "conversation @ [Message Assistant None (JStr raw2)]"])
  ultimately show ?thesis using eq by blast
qed

theorem action_field_ignored_witness:
  "loads (example_env ''hello'') ''hello'' =
     Some (JObj (response_of ''CALL_FUNCTION'' hello_input JNull))
   \<and> loads (example_env ''hello'') ''hello-none'' =
     Some (JObj (response_of ''NONE'' hello_input JNull))
   \<and> dict_get (response_of ''CALL_FUNCTION'' hello_input JNull) ''Action'' = JStr ''CALL_FUNCTION''
   \<and> dict_get (response_of ''NONE'' hello_input JNull) ''Action'' = JStr ''NONE''
   \<and> dispatch (example_env ''hello'') example_agent
        (response_of ''CALL_FUNCTION'' hello_input JNull) [system_message] () =
      dispatch (example_env ''hello'') example_agent
        (response_of ''NONE'' hello_input JNull) [system_message] ()"
proof -
  have l1: "loads (example_env ''hello'') ''hello'' =
     Some (JObj (response_of ''CALL_FUNCTION'' hello_input JNull))"
    by (simp add: example_env_def example_loads_def)
  have l2: "loads (example_env ''hello'') ''hello-none'' =
     Some (JObj (response_of ''NONE'' hello_input JNull))"
    by (simp add: example_env_def example_loads_def)
  have f: "dict_get (response_of ''CALL_FUNCTION'' hello_input JNull) ''Final Answer'' =
           dict_get (response_of ''NONE'' hello_input JNull) ''Final Answer''"
    by (simp add: response_of_def dict_get_def)
  have a: "dict_get (response_of ''CALL_FUNCTION'' hello_input JNull) ''Action Input'' =
           dict_get (response_of ''NONE'' hello_input JNull) ''Action Input''"
    by (simp add: response_of_def dict_get_def)
  show ?thesis
    using action_field_ignored [OF l1 l2 f a, of example_agent "[system_message]" "()"] l1 l2
    by (simp add: response_of_def dict_get_def)
qed

end
